theory Spec2Isabelle
  imports Main "HOL-Library.Word" "HOL-Library.Char_ord" "HOL-Library.List_Lexorder"
begin

section \<open>Go runtime failures and errors\<close>

text \<open>
  A Go function of this development can end in three ways: it returns normally, it
  returns a non-nil \<open>error\<close>, or the runtime panics (an index or slice bound out of
  range, closing a closed channel). Errors are values carrying the message the code
  builds; panics are kept apart from them.
\<close>

datatype panic = IndexOutOfRange | SliceBoundsOutOfRange | CloseOfClosedChannel

datatype error = Error string | Wrap string error

datatype 'a outcome = Returned 'a | Failed error | Panicked panic

section \<open>Container creation: \<open>getEntrypointAndArgs\<close> and \<open>newContainer\<close>\<close>

text \<open>
  \<^verbatim>\<open>
  func getEntrypointAndArgs(configEntrypoint, configCmd []string) (string, []string) {
      if len(configEntrypoint) == 0 {
          return configCmd[0], configCmd[1:]
      }
      return configEntrypoint[0], append(configEntrypoint[1:], configCmd...)
  }
  \<close>
  \<open>configCmd[0]\<close> on an empty slice is a runtime panic, which is the \<open>Inl\<close> branch.
\<close>

definition getEntrypointAndArgs :: "string list \<Rightarrow> string list \<Rightarrow> panic + (string \<times> string list)" where
  "getEntrypointAndArgs configEntrypoint configCmd =
     (if length configEntrypoint = 0 then
        (case configCmd of
           [] \<Rightarrow> Inl IndexOutOfRange
         | c # cs \<Rightarrow> Inr (c, cs))
      else
        (case configEntrypoint of
           e # es \<Rightarrow> Inr (e, es @ configCmd)
         | [] \<Rightarrow> Inl IndexOutOfRange))"

record container_config =
  Hostname :: string
  Entrypoint :: "string list"
  Cmd :: "string list"

record platform =
  Architecture :: string
  OS :: string

record base_container =
  ID :: string
  Root :: string
  Created :: nat
  Managed :: bool
  Path :: string
  Args :: "string list"
  Config :: container_config
  ImageID :: string
  Name :: string
  Driver :: string
  ImagePlatform :: platform
  ContainerOS :: string

text \<open>
  What \<open>newContainer\<close> reads from the daemon and the operating system: the result of
  \<open>daemon.generateIDAndName\<close>, of \<open>os.Hostname\<close>, the repository directory, the
  storage driver's name and the clock.
\<close>

record newContainer_env =
  generateIDAndName :: "string \<Rightarrow> error + (string \<times> string)"
  os_Hostname :: "error + string"
  repository :: string
  StorageDriver :: string
  time_Now :: nat

text \<open>\<open>id[:12]\<close>: a slice expression panics when the string is shorter than 12 bytes.\<close>

definition slice_to :: "nat \<Rightarrow> string \<Rightarrow> panic + string" where
  "slice_to n s = (if n \<le> length s then Inr (take n s) else Inl SliceBoundsOutOfRange)"

definition newContainer ::
  "newContainer_env \<Rightarrow> string \<Rightarrow> platform \<Rightarrow> container_config \<Rightarrow> bool \<Rightarrow> string \<Rightarrow> bool
     \<Rightarrow> base_container outcome" where
  "newContainer env name plat config networkModeIsHost imgID managed =
     (case generateIDAndName env name of
        Inl err \<Rightarrow> Failed err
      | Inr (cid, name') \<Rightarrow>
          (let hostname =
                 (if Hostname config = [] then
                    (if networkModeIsHost then
                       (case os_Hostname env of
                          Inl err \<Rightarrow> Failed err
                        | Inr h \<Rightarrow> Returned h)
                     else
                       (case slice_to 12 cid of
                          Inl p \<Rightarrow> Panicked p
                        | Inr h \<Rightarrow> Returned h))
                  else Returned (Hostname config))
           in case hostname of
                Failed err \<Rightarrow> Failed err
              | Panicked p \<Rightarrow> Panicked p
              | Returned h \<Rightarrow>
                  (let config' = config\<lparr>Hostname := h\<rparr> in
                   case getEntrypointAndArgs (Entrypoint config') (Cmd config') of
                     Inl p \<Rightarrow> Panicked p
                   | Inr (entrypoint, args) \<Rightarrow>
                       Returned \<lparr>ID = cid, Root = repository env @ ''/'' @ cid,
                                 Created = time_Now env, Managed = managed,
                                 Path = entrypoint, Args = args, Config = config',
                                 ImageID = imgID, Name = name',
                                 Driver = StorageDriver env, ImagePlatform = plat,
                                 ContainerOS = OS plat\<rparr>)))"

section \<open>The shutdown signal: \<open>daemonCLI.stop\<close>\<close>

text \<open>
  \<^verbatim>\<open>
  stopOnce     sync.Once
  apiShutdown  chan struct{}

  func (cli *daemonCLI) stop() {
      cli.stopOnce.Do(func() { close(cli.apiShutdown) })
  }
  \<close>
  \<open>sync.Once.Do\<close> runs its argument only if no call of \<open>Do\<close> on this \<open>Once\<close> has
  run it before, and calls of \<open>Do\<close> are serialised by the \<open>Once\<close>'s mutex: one call
  of \<open>stop\<close> is one atomic step on the pair (done flag, channel). Closing a channel
  that is already closed panics in Go; the model keeps that branch. The channel carries
  no values, so its state is open or closed; a receive \<open><-cli.apiShutdown\<close> proceeds
  exactly when it is closed.
\<close>

datatype chan = Open | Closed

definition close_chan :: "chan \<Rightarrow> panic + chan" where
  "close_chan c = (case c of Open \<Rightarrow> Inr Closed | Closed \<Rightarrow> Inl CloseOfClosedChannel)"

record shutdown_signal =
  stopOnce :: bool
  apiShutdown :: chan

text \<open>\<open>newDaemonCLI\<close>: \<open>apiShutdown: make(chan struct{})\<close>, \<open>stopOnce\<close> the zero value.\<close>

definition new_shutdown_signal :: shutdown_signal where
  "new_shutdown_signal = \<lparr>stopOnce = False, apiShutdown = Open\<rparr>"

definition stop :: "shutdown_signal \<Rightarrow> panic + shutdown_signal" where
  "stop cli =
     (if stopOnce cli then Inr cli
      else (case close_chan (apiShutdown cli) of
              Inl p \<Rightarrow> Inl p
            | Inr c \<Rightarrow> Inr (cli\<lparr>stopOnce := True, apiShutdown := c\<rparr>)))"

text \<open>
  \<open>n\<close> calls of \<open>stop\<close>, one after the other, from whichever goroutines: a panic of
  one call ends the run.
\<close>

fun stop_calls :: "nat \<Rightarrow> shutdown_signal \<Rightarrow> panic + shutdown_signal" where
  "stop_calls 0 cli = Inr cli"
| "stop_calls (Suc n) cli = (case stop cli of Inl p \<Rightarrow> Inl p | Inr cli' \<Rightarrow> stop_calls n cli')"

text \<open>
  The number of calls among \<open>n\<close> that changed the channel from open to closed (the
  effective transitions).
\<close>

fun stop_transitions :: "nat \<Rightarrow> shutdown_signal \<Rightarrow> nat" where
  "stop_transitions 0 cli = 0"
| "stop_transitions (Suc n) cli =
     (case stop cli of
        Inl p \<Rightarrow> 0
      | Inr cli' \<Rightarrow>
          (if apiShutdown cli = Open \<and> apiShutdown cli' = Closed then 1 else 0)
            + stop_transitions n cli')"

text \<open>An observer's \<open>select { case <-cli.apiShutdown: ... default: ... }\<close>.\<close>

definition stop_requested :: "shutdown_signal \<Rightarrow> bool" where
  "stop_requested cli = (apiShutdown cli = Closed)"

section \<open>Daemon configuration and TLS policy\<close>

text \<open>
  The fields of \<open>config.Config\<close> that the functions below read or write. \<open>TLS\<close> and
  \<open>TLSVerify\<close> are \<open>*bool\<close> in the source: \<open>None\<close> is the nil pointer. \<open>ValuesSet\<close>
  holds the keys of the configuration file; \<open>IsValueSet\<close> asks whether a key is there.
\<close>

record tls_options =
  CAFile :: string
  CertFile :: string
  KeyFile :: string

record config =
  Hosts :: "string list"
  TLS :: "bool option"
  TLSVerify :: "bool option"
  TLSOptions :: tls_options
  ValuesSet :: "string set"
  Debug :: bool
  LogLevel :: string
  LogFormat :: string
  MinAPIVersion :: string
  Labels :: "string list"
  CDISpecDirs :: "string list option"
  Features :: "string \<rightharpoonup> bool"
  ConfigRoot :: string
  SocketGroup :: string
  AuthorizationPlugins :: "string list"

definition FlagTLS :: string where "FlagTLS = ''tls''"
definition FlagTLSVerify :: string where "FlagTLSVerify = ''tlsverify''"

definition IsValueSet :: "config \<Rightarrow> string \<Rightarrow> bool" where
  "IsValueSet conf key = (key \<in> ValuesSet conf)"

text \<open>\<open>crypto/tls\<close>: \<open>ClientAuthType\<close>, whose zero value is \<open>NoClientCert\<close>.\<close>

datatype ClientAuthType =
  NoClientCert | RequestClientCert | RequireAnyClientCert
  | VerifyClientCertIfGiven | RequireAndVerifyClientCert

record tls_config =
  ClientAuth :: ClientAuthType
  tlsCAFile :: string
  tlsCertFile :: string
  tlsKeyFile :: string

text \<open>
  \<open>newAPIServerTLSConfig\<close>. \<open>tlsconfig.Server\<close> (go-connections) loads the
  certificate files and may fail; what it found on disk is the parameter \<open>server_err\<close>.
  On success it returns a configuration with the \<open>ClientAuth\<close> of its options.
\<close>

definition newAPIServerTLSConfig ::
  "(tls_options \<Rightarrow> error option) \<Rightarrow> config \<Rightarrow> error + tls_config option" where
  "newAPIServerTLSConfig server_err cfg =
     (if TLS cfg \<noteq> None \<and> the (TLS cfg) then
        (let clientAuth =
               (if TLSVerify cfg = None \<or> the (TLSVerify cfg)
                then RequireAndVerifyClientCert else NoClientCert)
         in case server_err (TLSOptions cfg) of
              Some err \<Rightarrow> Inl (Wrap ''invalid TLS configuration'' err)
            | None \<Rightarrow>
                Inr (Some \<lparr>ClientAuth = clientAuth,
                           tlsCAFile = CAFile (TLSOptions cfg),
                           tlsCertFile = CertFile (TLSOptions cfg),
                           tlsKeyFile = KeyFile (TLSOptions cfg)\<rparr>))
      else Inr None)"

text \<open>
  \<open>checkTLSAuthOK\<close>. \<open>DefaultTLSValue\<close> is a constant of the package that is declared
  in another file; it is a parameter here.
\<close>

definition checkTLSAuthOK :: "bool \<Rightarrow> config \<Rightarrow> bool" where
  "checkTLSAuthOK DefaultTLSValue cfg =
     (if TLS cfg = None then DefaultTLSValue
      else if \<not> the (TLS cfg) then True
      else if TLSVerify cfg = None then False
      else True)"

section \<open>Host normalisation: \<open>normalizeHosts\<close>\<close>

text \<open>
  \<open>dopts.ParseHost(useTLS, honorXDG, h)\<close> is in another package; the function
  \<open>ParseHost\<close> of the environment stands for it, with \<open>DefaultTLSValue\<close> and
  \<open>honorXDG\<close>, constants of the package declared elsewhere.
\<close>

record hosts_env =
  DefaultTLSValue :: bool
  honorXDG :: bool
  ParseHost :: "bool \<Rightarrow> bool \<Rightarrow> string \<Rightarrow> error + string"

text \<open>
  The loop of \<open>normalizeHosts\<close>: \<open>seen\<close> is the map used as a set, \<open>hosts\<close> the
  slice appended to. The first parse error ends it.
\<close>

fun normalizeHosts_loop ::
  "(string \<Rightarrow> error + string) \<Rightarrow> string set \<Rightarrow> string list \<Rightarrow> string list
     \<Rightarrow> error + string list" where
  "normalizeHosts_loop parse seen hosts [] = Inr hosts"
| "normalizeHosts_loop parse seen hosts (h # hs) =
     (case parse h of
        Inl err \<Rightarrow> Inl err
      | Inr host \<Rightarrow>
          (if host \<in> seen then normalizeHosts_loop parse seen hosts hs
           else normalizeHosts_loop parse (insert host seen) (hosts @ [host]) hs))"

text \<open>
  \<open>sort.Strings\<close> orders strings bytewise, a proper prefix first: the lexicographic
  order of \<open>char list\<close> over the byte order of \<open>char\<close>.
\<close>

definition normalizeHosts :: "hosts_env \<Rightarrow> config \<Rightarrow> error + config" where
  "normalizeHosts env cfg =
     (let cfgHosts = (if length (Hosts cfg) = 0 then [[]] else Hosts cfg);
          useTLS = (case TLS cfg of None \<Rightarrow> DefaultTLSValue env | Some b \<Rightarrow> b)
      in case normalizeHosts_loop (ParseHost env useTLS (honorXDG env)) {} [] cfgHosts of
           Inl err \<Rightarrow> Inl err
         | Inr hosts \<Rightarrow> Inr (cfg\<lparr>Hosts := sort hosts\<rparr>))"

section \<open>Listener resolution: \<open>loadListeners\<close>\<close>

text \<open>\<open>strings.Cut(s, sep)\<close>: the text before and after the first \<open>sep\<close> in \<open>s\<close>.\<close>

fun Cut :: "string \<Rightarrow> string \<Rightarrow> (string \<times> string) option" where
  "Cut [] sep = (if sep = [] then Some ([], []) else None)"
| "Cut (c # cs) sep =
     (if take (length sep) (c # cs) = sep then Some ([], drop (length sep) (c # cs))
      else (case Cut cs sep of
              None \<Rightarrow> None
            | Some (before, after) \<Rightarrow> Some (c # before, after)))"

text \<open>
  What \<open>loadListeners\<close> does besides returning: the warnings and errors it logs (by
  the host they are tagged with) and the time it sleeps, in seconds, in the order of
  the source.
\<close>

datatype message =
  InsecureBinding          \<comment> \<open>Binding to IP address without --tlsverify is insecure ...\<close>
  | BrowserScripts         \<comment> \<open>Binding to an IP address, even on localhost, can also give access ...\<close>
  | DeprecationNotice      \<comment> \<open>[DEPRECATION NOTICE] In future versions this will be a hard failure ...\<close>
  | SlowedDown             \<comment> \<open>Binding to an IP address without --tlsverify is deprecated. Startup is intentionally being slowed down ...\<close>
  | GenerateCertificates   \<comment> \<open>Please consider generating tls certificates with client validation ...\<close>
  | OverrideHint           \<comment> \<open>You can override this by explicitly specifying '--tls=false' or '--tlsverify=false'\<close>
  | SupportRemoved         \<comment> \<open>Support for listening on TCP without authentication ... will be removed in the next release\<close>

datatype effect =
  Warn string message
  | LookupError string error   \<comment> \<open>Error looking up specified host address\<close>
  | Sleep nat
  | ListenerCreated string string

datatype listener = Listener string string nat

type_synonym ip = "nat list"

text \<open>
  The network library and the port allocator, as \<open>loadListeners\<close> calls them:
  \<open>net.SplitHostPort\<close>, \<open>net.ParseIP\<close> (nil when the text is no IP address),
  \<open>net.ResolveIPAddr\<close> (an address, an error, or both nil), \<open>IP.IsLoopback\<close>,
  \<open>allocateDaemonPort\<close> and \<open>listeners.Init\<close>.
\<close>

record listen_env =
  tlsDefault :: bool
  SplitHostPort :: "string \<Rightarrow> error + (string \<times> string)"
  ParseIP :: "string \<Rightarrow> ip option"
  ResolveIPAddr :: "string \<Rightarrow> ip option \<times> error option"
  IsLoopback :: "ip \<Rightarrow> bool"
  allocateDaemonPort :: "string \<Rightarrow> error option"
  listeners_Init :: "string \<Rightarrow> string \<Rightarrow> string \<Rightarrow> tls_config option \<Rightarrow> error + listener list"

definition authEnabled :: "tls_config option \<Rightarrow> bool" where
  "authEnabled tlsConfig =
     (tlsConfig \<noteq> None \<and> ClientAuth (the tlsConfig) = RequireAndVerifyClientCert)"

text \<open>
  The lookup of the address to bind (\<open>ip := net.ParseIP(ipAddr)\<close> and the resolution
  when that is nil): the IP found, if any, and what was logged.
\<close>

definition lookup_ip :: "listen_env \<Rightarrow> string \<Rightarrow> ip option \<times> effect list" where
  "lookup_ip env ipAddr =
     (case ParseIP env ipAddr of
        Some ip \<Rightarrow> (Some ip, [])
      | None \<Rightarrow>
          (case ResolveIPAddr env ipAddr of
             (ipA, err) \<Rightarrow>
               (ipA, (case err of None \<Rightarrow> [] | Some e \<Rightarrow> [LookupError ipAddr e]))))"

text \<open>
  The block \<open>if proto == "tcp" && !authEnabled { ... }\<close> of the loop body: the
  error it returns with, if any, and its effects.
\<close>

definition deterrent ::
  "listen_env \<Rightarrow> config \<Rightarrow> tls_config option \<Rightarrow> string \<Rightarrow> string \<Rightarrow> string
     \<Rightarrow> error option \<times> effect list" where
  "deterrent env cfg tlsConfig protoAddr proto addr =
     (if proto = ''tcp'' \<and> \<not> authEnabled tlsConfig then
        (let warned = [Warn protoAddr InsecureBinding, Warn protoAddr BrowserScripts,
                       Warn protoAddr DeprecationNotice, Sleep 1]
         in if \<not> checkTLSAuthOK (tlsDefault env) cfg then
              (case SplitHostPort env addr of
                 Inl err \<Rightarrow> (Some (Wrap ''error parsing tcp address'' err), warned)
               | Inr (ipAddr, port) \<Rightarrow>
                   (if ipAddr \<noteq> ''localhost'' then
                      (case lookup_ip env ipAddr of
                         (ip, looked) \<Rightarrow>
                           (if ip = None \<or> \<not> IsLoopback env (the ip) then
                              (None, warned @ looked @
                                 [Warn protoAddr SlowedDown, Warn protoAddr GenerateCertificates,
                                  Warn protoAddr OverrideHint, Warn protoAddr SupportRemoved,
                                  Sleep 15])
                            else (None, warned @ looked)))
                    else (None, warned)))
            else (None, warned))
      else (None, []))"

text \<open>
  The loop of \<open>loadListeners\<close> over \<open>cfg.Hosts\<close>, with the listeners and hosts
  collected so far. An error returns \<open>nil, nil, err\<close>; the effects up to it stay.
\<close>

fun loadListeners_loop ::
  "listen_env \<Rightarrow> config \<Rightarrow> tls_config option \<Rightarrow> string list
     \<Rightarrow> listener list \<Rightarrow> string list \<Rightarrow> effect list
     \<Rightarrow> (error + (listener list \<times> string list)) \<times> effect list" where
  "loadListeners_loop env cfg tlsConfig [] lss hosts log = (Inr (lss, hosts), log)"
| "loadListeners_loop env cfg tlsConfig (protoAddr # rest) lss hosts log =
     (case Cut protoAddr ''://'' of
        None \<Rightarrow> (Inl (Error (''bad format '' @ protoAddr @ '', expected PROTO://ADDR'')), log)
      | Some (proto, addr) \<Rightarrow>
          (case deterrent env cfg tlsConfig protoAddr proto addr of
             (Some err, effects) \<Rightarrow> (Inl err, log @ effects)
           | (None, effects) \<Rightarrow>
               (case (if proto = ''tcp'' then allocateDaemonPort env addr else None) of
                  Some err \<Rightarrow> (Inl err, log @ effects)
                | None \<Rightarrow>
                    (case listeners_Init env proto addr (SocketGroup cfg) tlsConfig of
                       Inl err \<Rightarrow> (Inl err, log @ effects)
                     | Inr ls \<Rightarrow>
                         loadListeners_loop env cfg tlsConfig rest (lss @ ls) (hosts @ [addr])
                           (log @ effects @ [ListenerCreated proto addr])))))"

definition loadListeners ::
  "listen_env \<Rightarrow> config \<Rightarrow> tls_config option
     \<Rightarrow> (error + (listener list \<times> string list)) \<times> effect list" where
  "loadListeners env cfg tlsConfig =
     (if length (Hosts cfg) = 0 then (Inl (Error ''no hosts configured''), [])
      else loadListeners_loop env cfg tlsConfig (Hosts cfg) [] [] [])"


section \<open>Loading the configuration: \<open>loadDaemonCliConfig\<close>\<close>

text \<open>
  \<open>daemonOptions\<close>: the parsed flags (\<open>flags.Parsed()\<close>, \<open>flags.Changed(name)\<close>),
  the option values, and the configuration the flags were bound to.
\<close>

record daemonOptions =
  flags_Parsed :: bool
  flags_Changed :: "string \<Rightarrow> bool"
  opt_Debug :: bool
  opt_Hosts :: "string list"
  opt_LogLevel :: string
  opt_LogFormat :: string
  opt_TLS :: bool
  opt_TLSVerify :: bool
  opt_TLSOptions :: "tls_options option"
  configFile :: string
  daemonConfig :: config

text \<open>
  What \<open>loadDaemonCliConfig\<close> calls outside this file: \<open>opts.setDefaultOptions\<close>,
  the environment variable \<open>DOCKER_MIN_API_VERSION\<close>, \<open>config.ValidateMinAPIVersion\<close>,
  \<open>runtime.GOOS\<close>, \<open>filepath.Join\<close>, \<open>config.MergeDaemonConfigurations\<close> (a merged
  configuration or nil, and an error or nil), \<open>os.IsNotExist\<close>, \<open>config.Validate\<close>,
  \<open>config.GetConflictFreeLabels\<close>, \<open>validateCPURealtimeOptions\<close>,
  \<open>cdi.DefaultSpecDirs\<close> and \<open>setPlatformOptions\<close>, which gets the pointer to the
  configuration and may change it.
\<close>

record cli_env =
  hostsEnv :: hosts_env
  setDefaultOptions :: "daemonOptions \<Rightarrow> daemonOptions"
  DOCKER_MIN_API_VERSION :: string
  ValidateMinAPIVersion :: "string \<Rightarrow> error option"
  GOOS :: string
  filepath_Join :: "string list \<Rightarrow> string"
  MergeDaemonConfigurations :: "config \<Rightarrow> string \<Rightarrow> config option \<times> error option"
  os_IsNotExist :: "error \<Rightarrow> bool"
  config_Validate :: "config \<Rightarrow> error option"
  GetConflictFreeLabels :: "string list \<Rightarrow> error + string list"
  validateCPURealtimeOptions :: "config \<Rightarrow> error option"
  cdi_DefaultSpecDirs :: "string list"
  setPlatformOptions :: "config \<Rightarrow> error + config"

text \<open>
  Lines 556 to 594: the configuration of the flags. \<open>conf.TLS = &opts.TLS\<close> and
  \<open>conf.TLSVerify = &opts.TLSVerify\<close> store pointers to the option values, which
  nothing changes afterwards.
\<close>

definition flagsConfig :: "cli_env \<Rightarrow> daemonOptions \<Rightarrow> error + config" where
  "flagsConfig env opts =
     (let conf = (daemonConfig opts)\<lparr>Debug := opt_Debug opts, Hosts := opt_Hosts opts,
                                     LogLevel := opt_LogLevel opts, LogFormat := opt_LogFormat opts\<rparr>;
          ver = DOCKER_MIN_API_VERSION env
      in case (if ver \<noteq> [] then ValidateMinAPIVersion env ver else None) of
           Some err \<Rightarrow> Inl (Wrap ''invalid DOCKER_MIN_API_VERSION'' err)
         | None \<Rightarrow>
             (let conf = (if ver \<noteq> [] then conf\<lparr>MinAPIVersion := ver\<rparr> else conf);
                  conf = (if flags_Changed opts FlagTLS
                          then conf\<lparr>TLS := Some (opt_TLS opts)\<rparr> else conf);
                  conf = (if flags_Changed opts FlagTLSVerify
                          then conf\<lparr>TLSVerify := Some (opt_TLSVerify opts), TLS := Some True\<rparr>
                          else conf);
                  conf = (case opt_TLSOptions opts of
                            Some t \<Rightarrow> conf\<lparr>TLSOptions := \<lparr>CAFile = CAFile t, CertFile = CertFile t,
                                                          KeyFile = KeyFile t\<rparr>\<rparr>
                          | None \<Rightarrow> conf\<lparr>TLSOptions := \<lparr>CAFile = [], CertFile = [], KeyFile = []\<rparr>\<rparr>)
              in Inr conf))"

text \<open>Lines 596 to 603: the configuration file's place.\<close>

definition effectiveConfigFile :: "cli_env \<Rightarrow> daemonOptions \<Rightarrow> config \<Rightarrow> string" where
  "effectiveConfigFile env opts conf =
     (if GOOS env = ''windows'' \<and> configFile opts = []
      then filepath_Join env [ConfigRoot conf, ''config'', ''daemon.json'']
      else configFile opts)"

text \<open>Lines 605 to 618: merging the configuration file.\<close>

definition mergeConfigFile :: "cli_env \<Rightarrow> daemonOptions \<Rightarrow> config \<Rightarrow> error + config" where
  "mergeConfigFile env opts conf =
     (let file = effectiveConfigFile env opts conf in
      if file \<noteq> [] then
        (case MergeDaemonConfigurations env conf file of
           (c, err) \<Rightarrow>
             (if err \<noteq> None \<and> (flags_Changed opts ''config-file'' \<or> \<not> os_IsNotExist env (the err))
              then Inl (Wrap (''unable to configure the Docker daemon with file '' @ file) (the err))
              else (case c of Some merged \<Rightarrow> Inr merged | None \<Rightarrow> Inr conf)))
      else Inr conf)"

text \<open>Lines 635 to 644: TLS is forced on when \<open>tlsverify\<close> is set, and \<open>TLSVerify\<close>
  defaults to \<open>TLS\<close>.\<close>

definition tlsPolicy :: "config \<Rightarrow> config" where
  "tlsPolicy conf =
     (let conf = (if IsValueSet conf FlagTLSVerify then conf\<lparr>TLS := Some True\<rparr> else conf)
      in if TLSVerify conf = None \<and> TLS conf \<noteq> None
         then conf\<lparr>TLSVerify := TLS conf\<rparr> else conf)"

text \<open>Lines 651 to 662: the CDI directories. \<open>append([]string(nil), xs...)\<close> is nil
  when \<open>xs\<close> is empty.\<close>

definition cdiSpecDirs :: "cli_env \<Rightarrow> config \<Rightarrow> config" where
  "cdiSpecDirs env conf =
     (let conf =
            (if CDISpecDirs conf = None then
               conf\<lparr>CDISpecDirs := (if cdi_DefaultSpecDirs env = [] then None
                                     else Some (cdi_DefaultSpecDirs env))\<rparr>
             else if length (the (CDISpecDirs conf)) = 1 \<and> the (CDISpecDirs conf) ! 0 = []
             then conf\<lparr>CDISpecDirs := None\<rparr>
             else conf)
      in case Features conf ''cdi'' of
           Some val \<Rightarrow> (if \<not> val then conf\<lparr>CDISpecDirs := None\<rparr> else conf)
         | None \<Rightarrow> conf)"

text \<open>Lines 620 to 668.\<close>

definition finishConfig :: "cli_env \<Rightarrow> config \<Rightarrow> error + config" where
  "finishConfig env conf =
     (case normalizeHosts (hostsEnv env) conf of
        Inl err \<Rightarrow> Inl err
      | Inr conf \<Rightarrow>
          (case config_Validate env conf of
             Some err \<Rightarrow> Inl err
           | None \<Rightarrow>
               (case GetConflictFreeLabels env (Labels conf) of
                  Inl err \<Rightarrow> Inl err
                | Inr newLabels \<Rightarrow>
                    (let conf = tlsPolicy (conf\<lparr>Labels := newLabels\<rparr>) in
                     case validateCPURealtimeOptions env conf of
                       Some err \<Rightarrow> Inl err
                     | None \<Rightarrow> setPlatformOptions env (cdiSpecDirs env conf)))))"

definition loadDaemonCliConfig :: "cli_env \<Rightarrow> daemonOptions \<Rightarrow> error + config" where
  "loadDaemonCliConfig env opts =
     (if \<not> flags_Parsed opts then Inl (Error ''cannot load CLI config before flags are parsed'')
      else
        (let opts = setDefaultOptions env opts in
         case flagsConfig env opts of
           Inl err \<Rightarrow> Inl err
         | Inr conf \<Rightarrow>
             (case mergeConfigFile env opts conf of
                Inl err \<Rightarrow> Inl err
              | Inr conf \<Rightarrow> finishConfig env conf)))"

text \<open>
  Whether the configuration file replaced the configuration of the flags (\<open>conf = c\<close>
  at line 616), for options as \<open>setDefaultOptions\<close> left them.
\<close>

definition fileReplacesConfig :: "cli_env \<Rightarrow> daemonOptions \<Rightarrow> bool" where
  "fileReplacesConfig env opts =
     (case flagsConfig env opts of
        Inl err \<Rightarrow> False
      | Inr conf \<Rightarrow>
          effectiveConfigFile env opts conf \<noteq> []
          \<and> fst (MergeDaemonConfigurations env conf (effectiveConfigFile env opts conf)) \<noteq> None)"

text \<open>
  \<open>setPlatformOptions\<close> is not in these files. The statements about the configuration
  returned suppose that it leaves the TLS settings and the set of file keys alone.
\<close>

definition keepsTLS :: "(config \<Rightarrow> error + config) \<Rightarrow> bool" where
  "keepsTLS f =
     (\<forall>c c'. f c = Inr c' \<longrightarrow>
        TLS c' = TLS c \<and> TLSVerify c' = TLSVerify c \<and> ValuesSet c' = ValuesSet c)"


section \<open>Notions the statements about listeners use\<close>

text \<open>
  The address part of a host specification \<open>PROTO://ADDR\<close>, which is what
  \<open>loadListeners\<close> appends to its host list (\<open>hosts = append(hosts, addr)\<close>).
\<close>

definition address_of :: "string \<Rightarrow> string" where
  "address_of protoAddr = (case Cut protoAddr ''://'' of None \<Rightarrow> protoAddr | Some (proto, addr) \<Rightarrow> addr)"

fun delay :: "effect \<Rightarrow> nat" where
  "delay (Sleep n) = n"
| "delay _ = 0"

definition total_delay :: "effect list \<Rightarrow> nat" where
  "total_delay log = sum_list (map delay log)"

definition warnings :: "effect list \<Rightarrow> effect list" where
  "warnings log = filter (\<lambda>e. case e of Warn h m \<Rightarrow> True | _ \<Rightarrow> False) log"

definition not_loopback :: "listen_env \<Rightarrow> string \<Rightarrow> bool" where
  "not_loopback env ipAddr =
     (ipAddr \<noteq> ''localhost'' \<and>
      (case fst (lookup_ip env ipAddr) of None \<Rightarrow> True | Some ip \<Rightarrow> \<not> IsLoopback env ip))"

definition example_config :: "string list \<Rightarrow> bool option \<Rightarrow> bool option \<Rightarrow> config" where
  "example_config hs tls verify =
     \<lparr>Hosts = hs, TLS = tls, TLSVerify = verify,
      TLSOptions = \<lparr>CAFile = [], CertFile = [], KeyFile = []\<rparr>, ValuesSet = {},
      Debug = False, LogLevel = ''info'', LogFormat = [], MinAPIVersion = [], Labels = [],
      CDISpecDirs = None, Features = Map.empty, ConfigRoot = ''/var/lib/docker'',
      SocketGroup = ''docker'', AuthorizationPlugins = []\<rparr>"

definition example_hosts_env :: hosts_env where
  "example_hosts_env = \<lparr>DefaultTLSValue = False, honorXDG = False, ParseHost = (\<lambda>useTLS xdg h. Inr h)\<rparr>"

definition example_listen_env :: listen_env where
  "example_listen_env =
     \<lparr>tlsDefault = False,
      SplitHostPort = (\<lambda>a. case Cut a '':'' of
                             None \<Rightarrow> Inl (Error ''missing port in address'')
                           | Some hp \<Rightarrow> Inr hp),
      ParseIP = (\<lambda>s. if s = ''127.0.0.1'' then Some [127, 0, 0, 1]
                      else if s = ''10.0.0.1'' then Some [10, 0, 0, 1] else None),
      ResolveIPAddr = (\<lambda>s. (None, Some (Error ''no such host''))),
      IsLoopback = (\<lambda>ip. case ip of [] \<Rightarrow> False | b # bs \<Rightarrow> b = 127),
      allocateDaemonPort = (\<lambda>a. None),
      listeners_Init = (\<lambda>proto addr grp tls. Inr [Listener proto addr 0])\<rparr>"

section \<open>Theorems\<close>

lemma stop_fired_noop:
  "stopOnce cli \<Longrightarrow> stop cli = Inr cli"
  by (simp add: stop_def)

lemma stop_calls_fired:
  "stopOnce cli \<Longrightarrow> stop_calls n cli = Inr cli"
  by (induction n) (simp_all add: stop_fired_noop)

lemma stop_transitions_fired:
  "stopOnce cli \<Longrightarrow> stop_transitions n cli = 0"
  by (induction n) (simp_all add: stop_fired_noop)

lemma stop_new:
  "stop new_shutdown_signal = Inr \<lparr>stopOnce = True, apiShutdown = Closed\<rparr>"
  by (simp add: stop_def new_shutdown_signal_def close_chan_def)

text \<open>
  C2. Calling \<open>stop\<close> any number of times (at least once) on the signal that
  \<open>newDaemonCLI\<close> creates gives the state that one call gives, without a panic; among
  the calls exactly one changes the channel from open to closed; a further call is a
  no-op; an observer sees "not requested" before the first call and "requested" after
  any number of calls. Concurrent callers are serialised by \<open>sync.Once\<close>, so every
  concurrent execution is one of these sequences.
\<close>

theorem stop_idempotent:
  "stop_calls (Suc n) new_shutdown_signal = stop new_shutdown_signal
   \<and> stop_calls (Suc n) new_shutdown_signal = Inr \<lparr>stopOnce = True, apiShutdown = Closed\<rparr>
   \<and> stop_transitions (Suc n) new_shutdown_signal = 1
   \<and> stop \<lparr>stopOnce = True, apiShutdown = Closed\<rparr> = Inr \<lparr>stopOnce = True, apiShutdown = Closed\<rparr>
   \<and> \<not> stop_requested new_shutdown_signal
   \<and> stop_requested \<lparr>stopOnce = True, apiShutdown = Closed\<rparr>"
proof -
  let ?fired = "\<lparr>stopOnce = True, apiShutdown = Closed\<rparr>"
  have calls: "stop_calls (Suc n) new_shutdown_signal = Inr ?fired"
    by (simp add: stop_new stop_calls_fired)
  have trans: "stop_transitions (Suc n) new_shutdown_signal = 1"
    by (simp add: stop_new stop_transitions_fired) (simp add: new_shutdown_signal_def)
  have noop: "stop ?fired = Inr ?fired"
    by (simp add: stop_fired_noop)
  have first: "stop_calls (Suc n) new_shutdown_signal = stop new_shutdown_signal"
    by (simp only: calls stop_new)
  have before: "\<not> stop_requested new_shutdown_signal"
    by (simp add: stop_requested_def new_shutdown_signal_def)
  have after: "stop_requested ?fired"
    by (simp add: stop_requested_def)
  from first calls trans noop before after show ?thesis
    by (intro conjI)
qed

lemma getEntrypointAndArgs_entrypoint:
  "configEntrypoint \<noteq> [] \<Longrightarrow>
   getEntrypointAndArgs configEntrypoint configCmd =
     Inr (hd configEntrypoint, tl configEntrypoint @ configCmd)"
  by (cases configEntrypoint) (simp_all add: getEntrypointAndArgs_def)

lemma getEntrypointAndArgs_cmd:
  "configCmd \<noteq> [] \<Longrightarrow>
   getEntrypointAndArgs [] configCmd = Inr (hd configCmd, tl configCmd)"
  by (cases configCmd) (simp_all add: getEntrypointAndArgs_def)

lemma getEntrypointAndArgs_empty:
  "getEntrypointAndArgs [] [] = Inl IndexOutOfRange"
  by (simp add: getEntrypointAndArgs_def)

lemma getEntrypointAndArgs_panics_iff:
  "(\<exists>p. getEntrypointAndArgs configEntrypoint configCmd = Inl p)
     \<longleftrightarrow> configEntrypoint = [] \<and> configCmd = []"
  by (cases configEntrypoint; cases configCmd) (simp_all add: getEntrypointAndArgs_def)

lemma newContainer_index_panic_iff:
  "newContainer env name plat config networkModeIsHost imgID managed = Panicked IndexOutOfRange
     \<longleftrightarrow> Entrypoint config = [] \<and> Cmd config = []
          \<and> (\<exists>cid name'. generateIDAndName env name = Inr (cid, name')
                \<and> (Hostname config \<noteq> []
                    \<or> (networkModeIsHost \<and> (\<exists>h. os_Hostname env = Inr h))
                    \<or> (\<not> networkModeIsHost \<and> 12 \<le> length cid)))"
  by (auto simp add: newContainer_def Let_def slice_to_def getEntrypointAndArgs_def
           split: sum.splits list.splits outcome.splits if_splits prod.splits)

lemma newContainer_needs_command:
  "Entrypoint config = [] \<Longrightarrow> Cmd config = [] \<Longrightarrow>
   newContainer env name plat config networkModeIsHost imgID managed \<noteq> Returned c"
  by (auto simp add: newContainer_def Let_def slice_to_def getEntrypointAndArgs_def
           split: sum.splits list.splits outcome.splits if_splits prod.splits)

text \<open>
  C10. \<open>getEntrypointAndArgs\<close> returns \<open>(Entrypoint[0], Entrypoint[1:] ++ Cmd)\<close> when
  the entrypoint is non-empty and \<open>(Cmd[0], Cmd[1:])\<close> when the entrypoint is empty
  and the command is not; it panics (index out of range) exactly when both are empty.
  For \<open>newContainer\<close>: with both empty it never returns a container, and it panics with
  that index error exactly when both are empty and the earlier steps (ID generation,
  host name) got through; so it is safe only if at least one of the two is non-empty.
\<close>

theorem getEntrypointAndArgs_needs_command:
  "(configEntrypoint \<noteq> [] \<longrightarrow>
      getEntrypointAndArgs configEntrypoint configCmd =
        Inr (hd configEntrypoint, tl configEntrypoint @ configCmd))
   \<and> (configEntrypoint = [] \<and> configCmd \<noteq> [] \<longrightarrow>
      getEntrypointAndArgs configEntrypoint configCmd = Inr (hd configCmd, tl configCmd))
   \<and> (configEntrypoint = [] \<and> configCmd = [] \<longrightarrow>
      getEntrypointAndArgs configEntrypoint configCmd = Inl IndexOutOfRange)
   \<and> ((\<exists>p. getEntrypointAndArgs configEntrypoint configCmd = Inl p)
        \<longleftrightarrow> configEntrypoint = [] \<and> configCmd = [])
   \<and> (Entrypoint config = [] \<and> Cmd config = [] \<longrightarrow>
        (\<forall>c. newContainer env name plat config networkModeIsHost imgID managed \<noteq> Returned c))
   \<and> (newContainer env name plat config networkModeIsHost imgID managed = Panicked IndexOutOfRange
        \<longleftrightarrow> Entrypoint config = [] \<and> Cmd config = []
             \<and> (\<exists>cid name'. generateIDAndName env name = Inr (cid, name')
                   \<and> (Hostname config \<noteq> []
                       \<or> (networkModeIsHost \<and> (\<exists>h. os_Hostname env = Inr h))
                       \<or> (\<not> networkModeIsHost \<and> 12 \<le> length cid))))"
proof (intro conjI impI allI)
  assume "configEntrypoint \<noteq> []"
  then show "getEntrypointAndArgs configEntrypoint configCmd =
        Inr (hd configEntrypoint, tl configEntrypoint @ configCmd)"
    by (rule getEntrypointAndArgs_entrypoint)
next
  assume "configEntrypoint = [] \<and> configCmd \<noteq> []"
  then show "getEntrypointAndArgs configEntrypoint configCmd = Inr (hd configCmd, tl configCmd)"
    by (simp add: getEntrypointAndArgs_cmd)
next
  assume "configEntrypoint = [] \<and> configCmd = []"
  then show "getEntrypointAndArgs configEntrypoint configCmd = Inl IndexOutOfRange"
    by (simp add: getEntrypointAndArgs_empty)
next
  show "(\<exists>p. getEntrypointAndArgs configEntrypoint configCmd = Inl p)
        \<longleftrightarrow> configEntrypoint = [] \<and> configCmd = []"
    by (rule getEntrypointAndArgs_panics_iff)
next
  fix c
  assume "Entrypoint config = [] \<and> Cmd config = []"
  then show "newContainer env name plat config networkModeIsHost imgID managed \<noteq> Returned c"
    by (simp add: newContainer_needs_command)
next
  show "newContainer env name plat config networkModeIsHost imgID managed = Panicked IndexOutOfRange
        \<longleftrightarrow> Entrypoint config = [] \<and> Cmd config = []
             \<and> (\<exists>cid name'. generateIDAndName env name = Inr (cid, name')
                   \<and> (Hostname config \<noteq> []
                       \<or> (networkModeIsHost \<and> (\<exists>h. os_Hostname env = Inr h))
                       \<or> (\<not> networkModeIsHost \<and> 12 \<le> length cid)))"
    by (rule newContainer_index_panic_iff)
qed

theorem getEntrypointAndArgs_needs_command_witness:
  "getEntrypointAndArgs [''sh'', ''-c''] [''ls''] = Inr (''sh'', [''-c'', ''ls''])
   \<and> getEntrypointAndArgs [] [''ls'', ''-l''] = Inr (''ls'', [''-l''])
   \<and> getEntrypointAndArgs [] [] = Inl IndexOutOfRange
   \<and> newContainer
        \<lparr>generateIDAndName = (\<lambda>n. Inr (''0123456789abcdef'', ''/'' @ n)),
         os_Hostname = Inr ''host'', repository = ''/var/lib/docker/containers'',
         StorageDriver = ''overlay2'', time_Now = 0\<rparr>
        ''web'' \<lparr>Architecture = ''amd64'', OS = ''linux''\<rparr>
        \<lparr>Hostname = [], Entrypoint = [], Cmd = []\<rparr> False ''sha256:0'' False
      = Panicked IndexOutOfRange"
  using getEntrypointAndArgs_needs_command
          [of "[''sh'', ''-c'']" "[''ls'']" "\<lparr>Hostname = [], Entrypoint = [], Cmd = []\<rparr>"
              "\<lparr>generateIDAndName = (\<lambda>n. Inr (''0123456789abcdef'', ''/'' @ n)),
                os_Hostname = Inr ''host'', repository = ''/var/lib/docker/containers'',
                StorageDriver = ''overlay2'', time_Now = 0\<rparr>"
              "''web''" "\<lparr>Architecture = ''amd64'', OS = ''linux''\<rparr>" False "''sha256:0''" False]
        getEntrypointAndArgs_needs_command
          [of "[]" "[''ls'', ''-l'']" "\<lparr>Hostname = [], Entrypoint = [], Cmd = []\<rparr>"
              "\<lparr>generateIDAndName = (\<lambda>n. Inr (''0123456789abcdef'', ''/'' @ n)),
                os_Hostname = Inr ''host'', repository = ''/var/lib/docker/containers'',
                StorageDriver = ''overlay2'', time_Now = 0\<rparr>"
              "''web''" "\<lparr>Architecture = ''amd64'', OS = ''linux''\<rparr>" False "''sha256:0''" False]
        getEntrypointAndArgs_needs_command
          [of "[]" "[]" "\<lparr>Hostname = [], Entrypoint = [], Cmd = []\<rparr>"
              "\<lparr>generateIDAndName = (\<lambda>n. Inr (''0123456789abcdef'', ''/'' @ n)),
                os_Hostname = Inr ''host'', repository = ''/var/lib/docker/containers'',
                StorageDriver = ''overlay2'', time_Now = 0\<rparr>"
              "''web''" "\<lparr>Architecture = ''amd64'', OS = ''linux''\<rparr>" False "''sha256:0''" False]
  by simp

lemma Cut_Some: "Cut s sep = Some (before, after) \<Longrightarrow> s = before @ sep @ after"
proof (induction s arbitrary: before)
  case Nil
  then show ?case by (simp split: if_splits)
next
  case (Cons c cs)
  show ?case
  proof (cases "take (length sep) (c # cs) = sep")
    case True
    with Cons.prems have "before = []" "after = drop (length sep) (c # cs)" by simp_all
    with True show ?thesis by (metis append_Nil append_take_drop_id)
  next
    case False
    with Cons.prems obtain b where "Cut cs sep = Some (b, after)" "before = c # b"
      by (auto split: option.splits)
    with Cons.IH show ?thesis by simp
  qed
qed

lemma normalizeHosts_loop_Inr:
  assumes "normalizeHosts_loop parse seen hosts hs = Inr r"
  shows "\<exists>parsed. map parse hs = map Inr parsed
           \<and> set r = set hosts \<union> (set parsed - seen)
           \<and> (distinct hosts \<and> set hosts \<subseteq> seen \<longrightarrow> distinct r)"
  using assms
proof (induction hs arbitrary: seen hosts)
  case Nil
  then show ?case by simp
next
  case (Cons h hs)
  from Cons.prems obtain host where ph: "parse h = Inr host"
    by (cases "parse h") simp_all
  show ?case
  proof (cases "host \<in> seen")
    case True
    with Cons.prems ph have "normalizeHosts_loop parse seen hosts hs = Inr r" by simp
    from Cons.IH [OF this] obtain parsed where
      p: "map parse hs = map Inr parsed" "set r = set hosts \<union> (set parsed - seen)"
         "distinct hosts \<and> set hosts \<subseteq> seen \<longrightarrow> distinct r" by blast
    have "map parse (h # hs) = map Inr (host # parsed)" using ph p(1) by simp
    moreover have "set r = set hosts \<union> (set (host # parsed) - seen)" using p(2) True by auto
    ultimately show ?thesis using p(3) by blast
  next
    case False
    with Cons.prems ph
    have "normalizeHosts_loop parse (insert host seen) (hosts @ [host]) hs = Inr r" by simp
    from Cons.IH [OF this] obtain parsed where
      p: "map parse hs = map Inr parsed"
         "set r = set (hosts @ [host]) \<union> (set parsed - insert host seen)"
         "distinct (hosts @ [host]) \<and> set (hosts @ [host]) \<subseteq> insert host seen \<longrightarrow> distinct r"
      by blast
    have "map parse (h # hs) = map Inr (host # parsed)" using ph p(1) by simp
    moreover have "set r = set hosts \<union> (set (host # parsed) - seen)" using p(2) False by auto
    moreover have "distinct hosts \<and> set hosts \<subseteq> seen \<longrightarrow> distinct r"
      using p(3) False by auto
    ultimately show ?thesis by blast
  qed
qed

lemma sort_distinct_eq:
  fixes r :: "string list"
  assumes "distinct r" "set r = set parsed"
  shows "sort r = sort (remdups parsed)"
proof -
  have "sorted (sort r)" "distinct (sort r)" "set (sort r) = set parsed"
    using assms by simp_all
  moreover have "sorted (sort (remdups parsed))" "distinct (sort (remdups parsed))"
    "set (sort (remdups parsed)) = set parsed" by simp_all
  ultimately show ?thesis by (metis sorted_distinct_set_unique)
qed

lemma normalizeHosts_Inr:
  assumes "normalizeHosts env cfg = Inr cfg'"
  shows "\<exists>parsed.
           map (ParseHost env (case TLS cfg of None \<Rightarrow> DefaultTLSValue env | Some b \<Rightarrow> b) (honorXDG env))
               (if Hosts cfg = [] then [[]] else Hosts cfg) = map Inr parsed
           \<and> cfg' = cfg\<lparr>Hosts := sort (remdups parsed)\<rparr>"
proof -
  define parse where
    "parse = ParseHost env (case TLS cfg of None \<Rightarrow> DefaultTLSValue env | Some b \<Rightarrow> b) (honorXDG env)"
  define hs where "hs = (if Hosts cfg = [] then [[]] else Hosts cfg)"
  have unf: "normalizeHosts env cfg =
      (case normalizeHosts_loop parse {} [] hs of
         Inl err \<Rightarrow> Inl err
       | Inr hosts \<Rightarrow> Inr (cfg\<lparr>Hosts := sort hosts\<rparr>))"
    unfolding normalizeHosts_def parse_def hs_def Let_def by simp
  show ?thesis
  proof (cases "normalizeHosts_loop parse {} [] hs")
    case (Inl err)
    with unf assms show ?thesis by simp
  next
    case (Inr r)
    with unf assms have c: "cfg' = cfg\<lparr>Hosts := sort r\<rparr>" by simp
    have "\<exists>parsed. map parse hs = map Inr parsed \<and> set r = set parsed \<and> distinct r"
      using normalizeHosts_loop_Inr [OF Inr] by simp
    then obtain parsed where
      p: "map parse hs = map Inr parsed" and q': "set r = set parsed" and d': "distinct r"
      by (elim exE conjE)
    from d' q' have "sort r = sort (remdups parsed)" by (rule sort_distinct_eq)
    with c have "cfg' = cfg\<lparr>Hosts := sort (remdups parsed)\<rparr>" by simp
    with p show ?thesis unfolding parse_def hs_def by blast
  qed
qed

lemma loadListeners_loop_hosts:
  assumes "loadListeners_loop env cfg tlsConfig hs lss hosts log = (Inr (lss', hosts'), log')"
  shows "hosts' = hosts @ map address_of hs \<and> (\<forall>h\<in>set hs. \<exists>proto. h = proto @ ''://'' @ address_of h)"
  using assms
proof (induction hs arbitrary: lss hosts log)
  case Nil
  then show ?case by simp
next
  case (Cons protoAddr rest)
  from Cons.prems obtain proto addr where cut: "Cut protoAddr ''://'' = Some (proto, addr)"
    by (cases "Cut protoAddr ''://''") auto
  then have a: "address_of protoAddr = addr" by (simp add: address_of_def)
  from Cut_Some [OF cut] have pa: "protoAddr = proto @ ''://'' @ addr" .
  from Cons.prems cut obtain ls effects where
    "loadListeners_loop env cfg tlsConfig rest (lss @ ls) (hosts @ [addr])
       (log @ effects @ [ListenerCreated proto addr]) = (Inr (lss', hosts'), log')"
    by (auto split: prod.splits option.splits sum.splits if_splits)
  from Cons.IH [OF this] a pa show ?case by auto
qed

lemma lookup_ip_delay: "total_delay (snd (lookup_ip env ipAddr)) = 0"
  by (auto simp add: lookup_ip_def total_delay_def split: option.splits prod.splits)

lemma lookup_ip_warnings: "warnings (snd (lookup_ip env ipAddr)) = []"
  by (auto simp add: lookup_ip_def warnings_def split: option.splits prod.splits)

lemma total_delay_append: "total_delay (xs @ ys) = total_delay xs + total_delay ys"
  by (simp add: total_delay_def)

lemma warnings_append: "warnings (xs @ ys) = warnings xs @ warnings ys"
  by (simp add: warnings_def)

lemma deterrent_auth: "authEnabled tlsConfig \<Longrightarrow> deterrent env cfg tlsConfig protoAddr proto addr = (None, [])"
  by (simp add: deterrent_def)

lemma deterrent_not_tcp: "proto \<noteq> ''tcp'' \<Longrightarrow> deterrent env cfg tlsConfig protoAddr proto addr = (None, [])"
  by (simp add: deterrent_def)

lemma deterrent_ok:
  assumes "\<not> authEnabled tlsConfig" "checkTLSAuthOK (tlsDefault env) cfg"
  shows "deterrent env cfg tlsConfig protoAddr ''tcp'' addr =
     (None, [Warn protoAddr InsecureBinding, Warn protoAddr BrowserScripts,
             Warn protoAddr DeprecationNotice, Sleep 1])"
  using assms by (simp add: deterrent_def)

lemma deterrent_split_error:
  assumes "\<not> authEnabled tlsConfig" "\<not> checkTLSAuthOK (tlsDefault env) cfg"
    "SplitHostPort env addr = Inl err"
  shows "deterrent env cfg tlsConfig protoAddr ''tcp'' addr =
     (Some (Wrap ''error parsing tcp address'' err),
      [Warn protoAddr InsecureBinding, Warn protoAddr BrowserScripts,
             Warn protoAddr DeprecationNotice, Sleep 1])"
  using assms by (simp add: deterrent_def)

lemma deterrent_loopback:
  assumes "\<not> authEnabled tlsConfig" "\<not> checkTLSAuthOK (tlsDefault env) cfg"
    "SplitHostPort env addr = Inr (ipAddr, port)" "\<not> not_loopback env ipAddr"
  shows "deterrent env cfg tlsConfig protoAddr ''tcp'' addr =
     (None, [Warn protoAddr InsecureBinding, Warn protoAddr BrowserScripts,
             Warn protoAddr DeprecationNotice, Sleep 1] @ (if ipAddr = ''localhost'' then [] else snd (lookup_ip env ipAddr)))"
  using assms by (cases "lookup_ip env ipAddr") (auto simp add: deterrent_def not_loopback_def split: option.splits)

lemma deterrent_not_loopback:
  assumes "\<not> authEnabled tlsConfig" "\<not> checkTLSAuthOK (tlsDefault env) cfg"
    "SplitHostPort env addr = Inr (ipAddr, port)" "not_loopback env ipAddr"
  shows "deterrent env cfg tlsConfig protoAddr ''tcp'' addr =
     (None, [Warn protoAddr InsecureBinding, Warn protoAddr BrowserScripts,
             Warn protoAddr DeprecationNotice, Sleep 1] @ snd (lookup_ip env ipAddr) @
            [Warn protoAddr SlowedDown, Warn protoAddr GenerateCertificates,
             Warn protoAddr OverrideHint, Warn protoAddr SupportRemoved, Sleep 15])"
  using assms by (cases "lookup_ip env ipAddr") (auto simp add: deterrent_def not_loopback_def split: option.splits)

lemma loadListeners_loop_auth_log:
  assumes "authEnabled tlsConfig"
  shows "total_delay (snd (loadListeners_loop env cfg tlsConfig hs lss hosts log)) = total_delay log
         \<and> warnings (snd (loadListeners_loop env cfg tlsConfig hs lss hosts log)) = warnings log"
proof (induction hs arbitrary: lss hosts log)
  case Nil
  show ?case by simp
next
  case (Cons protoAddr rest)
  show ?case
  proof (cases "Cut protoAddr ''://''")
    case None
    then show ?thesis by simp
  next
    case (Some pa)
    obtain proto addr where pa: "pa = (proto, addr)" by (cases pa)
    have d: "deterrent env cfg tlsConfig protoAddr proto addr = (None, [])"
      using assms by (rule deterrent_auth)
    show ?thesis
    proof (cases "if proto = ''tcp'' then allocateDaemonPort env addr else None")
      case (Some err)
      with \<open>Cut protoAddr ''://'' = Some pa\<close> pa d show ?thesis by simp
    next
      case None
      note port = this
      show ?thesis
      proof (cases "listeners_Init env proto addr (SocketGroup cfg) tlsConfig")
        case (Inl err)
        with \<open>Cut protoAddr ''://'' = Some pa\<close> pa d port show ?thesis by simp
      next
        case (Inr ls)
        have "loadListeners_loop env cfg tlsConfig (protoAddr # rest) lss hosts log =
              loadListeners_loop env cfg tlsConfig rest (lss @ ls) (hosts @ [addr])
                (log @ [ListenerCreated proto addr])"
          using \<open>Cut protoAddr ''://'' = Some pa\<close> pa d port Inr by simp
        then show ?thesis
          using Cons.IH [of "lss @ ls" "hosts @ [addr]" "log @ [ListenerCreated proto addr]"]
          by (simp add: total_delay_def warnings_def)
      qed
    qed
  qed
qed

lemma loadListeners_loop_log:
  assumes "loadListeners_loop env cfg tlsConfig hs lss hosts log = (Inr r, log')"
    and "h \<in> set hs" and "Cut h ''://'' = Some (proto, addr)"
  shows "set (snd (deterrent env cfg tlsConfig h proto addr)) \<subseteq> set log'
         \<and> fst (deterrent env cfg tlsConfig h proto addr) = None"
  using assms(1,2)
proof (induction hs arbitrary: lss hosts log)
  case Nil
  then show ?case by simp
next
  case (Cons protoAddr rest)
  from Cons.prems(1) obtain p a where cut: "Cut protoAddr ''://'' = Some (p, a)"
    by (cases "Cut protoAddr ''://''") auto
  from Cons.prems(1) cut obtain effects where det: "deterrent env cfg tlsConfig protoAddr p a = (None, effects)"
    by (cases "deterrent env cfg tlsConfig protoAddr p a") (auto split: option.splits)
  from Cons.prems(1) cut det obtain ls where
    rest: "loadListeners_loop env cfg tlsConfig rest (lss @ ls) (hosts @ [a])
       (log @ effects @ [ListenerCreated p a]) = (Inr r, log')"
    by (auto split: option.splits sum.splits if_splits)
  have mono: "set (log @ effects @ [ListenerCreated p a]) \<subseteq> set log'"
    using rest
  proof (induction rest arbitrary: lss hosts log effects p a ls)
    case Nil
    then show ?case by auto
  next
    case (Cons x xs)
    from Cons.prems obtain p' a' where c: "Cut x ''://'' = Some (p', a')"
      by (cases "Cut x ''://''") auto
    from Cons.prems c obtain e' where d: "deterrent env cfg tlsConfig x p' a' = (None, e')"
      by (cases "deterrent env cfg tlsConfig x p' a'") (auto split: option.splits)
    from Cons.prems c d obtain ls' where
      "loadListeners_loop env cfg tlsConfig xs ((lss @ ls) @ ls') ((hosts @ [a]) @ [a'])
         ((log @ effects @ [ListenerCreated p a]) @ e' @ [ListenerCreated p' a']) = (Inr r, log')"
      by (auto split: option.splits sum.splits if_splits)
    from Cons.IH [OF this] show ?case by auto
  qed
  show ?case
  proof (cases "h = protoAddr")
    case True
    with cut assms(3) have "p = proto" "a = addr" by simp_all
    with det True mono show ?thesis by auto
  next
    case False
    with Cons.prems(2) have "h \<in> set rest" by simp
    from Cons.IH [OF rest this] show ?thesis .
  qed
qed

lemma loadListeners_auth_no_deterrent:
  assumes "authEnabled tlsConfig"
  shows "total_delay (snd (loadListeners env cfg tlsConfig)) = 0
         \<and> warnings (snd (loadListeners env cfg tlsConfig)) = []"
  using loadListeners_loop_auth_log [OF assms, of env cfg "Hosts cfg" "[]" "[]" "[]"]
  by (simp add: loadListeners_def total_delay_def warnings_def)

lemma loadListeners_tcp_log:
  assumes "loadListeners env cfg tlsConfig = (Inr r, log)"
    and "h \<in> set (Hosts cfg)" and "Cut h ''://'' = Some (''tcp'', addr)"
    and "\<not> authEnabled tlsConfig"
  shows "Warn h InsecureBinding \<in> set log \<and> Sleep 1 \<in> set log
         \<and> (checkTLSAuthOK (tlsDefault env) cfg
             \<or> (\<exists>ipAddr port. SplitHostPort env addr = Inr (ipAddr, port)
                   \<and> (if not_loopback env ipAddr
                       then Warn h SlowedDown \<in> set log \<and> Sleep 15 \<in> set log else True)))"
proof -
  from assms(1) have loop:
    "loadListeners_loop env cfg tlsConfig (Hosts cfg) [] [] [] = (Inr r, log)"
    by (auto simp add: loadListeners_def split: if_splits)
  from loadListeners_loop_log [OF loop assms(2,3)]
  have sub: "set (snd (deterrent env cfg tlsConfig h ''tcp'' addr)) \<subseteq> set log"
    and ok: "fst (deterrent env cfg tlsConfig h ''tcp'' addr) = None"
    by simp_all
  show ?thesis
  proof (cases "checkTLSAuthOK (tlsDefault env) cfg")
    case True
    from deterrent_ok [OF assms(4) True, of h addr] sub show ?thesis using True by auto
  next
    case False
    show ?thesis
    proof (cases "SplitHostPort env addr")
      case (Inl err)
      from deterrent_split_error [OF assms(4) False Inl, of h] ok show ?thesis by simp
    next
      case (Inr hp)
      obtain ipAddr port where hp: "hp = (ipAddr, port)" by (cases hp)
      show ?thesis
      proof (cases "not_loopback env ipAddr")
        case True
        from deterrent_not_loopback [OF assms(4) False Inr [unfolded hp] True, of h] sub
        show ?thesis using Inr hp True by auto
      next
        case nl: False
        from deterrent_loopback [OF assms(4) False Inr [unfolded hp] nl, of h] sub
        show ?thesis using Inr hp nl by auto
      qed
    qed
  qed
qed

lemma loadListeners_single:
  assumes "Hosts cfg = [h]" "Cut h ''://'' = Some (proto, addr)"
    and "deterrent env cfg tlsConfig h proto addr = (None, effects)"
    and "proto = ''tcp'' \<longrightarrow> allocateDaemonPort env addr = None"
    and "listeners_Init env proto addr (SocketGroup cfg) tlsConfig = Inr ls"
  shows "loadListeners env cfg tlsConfig = (Inr (ls, [addr]), effects @ [ListenerCreated proto addr])"
  using assms by (cases "proto = ''tcp''") (simp_all add: loadListeners_def)

lemma loadListeners_tcp_succeeds:
  assumes "Hosts cfg = [h]" "Cut h ''://'' = Some (''tcp'', addr)"
    and "\<not> authEnabled tlsConfig"
    and "allocateDaemonPort env addr = None"
    and "listeners_Init env ''tcp'' addr (SocketGroup cfg) tlsConfig = Inr ls"
    and "SplitHostPort env addr = Inr (ipAddr, port)"
  shows "fst (loadListeners env cfg tlsConfig) = Inr (ls, [addr])
         \<and> total_delay (snd (loadListeners env cfg tlsConfig)) =
             (if \<not> checkTLSAuthOK (tlsDefault env) cfg \<and> not_loopback env ipAddr then 16 else 1)
         \<and> warnings (snd (loadListeners env cfg tlsConfig)) \<noteq> []"
proof (cases "checkTLSAuthOK (tlsDefault env) cfg")
  case True
  from loadListeners_single [OF assms(1,2) deterrent_ok [OF assms(3) True] _ assms(5)] assms(4)
  show ?thesis using True by (simp add: total_delay_def warnings_def)
next
  case False
  show ?thesis
  proof (cases "not_loopback env ipAddr")
    case True
    from loadListeners_single [OF assms(1,2) deterrent_not_loopback [OF assms(3) False assms(6) True] _ assms(5)] assms(4)
    show ?thesis using False True lookup_ip_delay [of env ipAddr]
      by (simp add: total_delay_def warnings_def)
  next
    case nl: False
    from loadListeners_single [OF assms(1,2) deterrent_loopback [OF assms(3) False assms(6) nl] _ assms(5)] assms(4)
    show ?thesis using False nl lookup_ip_delay [of env ipAddr]
      by (simp add: total_delay_def warnings_def)
  qed
qed
text \<open>
  C3 (as amended). When \<open>normalizeHosts\<close> accepts the configuration and
  \<open>loadListeners\<close> succeeds on the result: \<open>cfg.Hosts\<close> after \<open>normalizeHosts\<close>
  is the parsed specifications, deduplicated and sorted; the host list that
  \<open>loadListeners\<close> returns holds the address part of each of them (the text after
  \<open>://\<close>), in the order of the sorted full specifications. For a non-empty input
  without duplicates that \<open>ParseHost\<close> leaves as it is, the host list is the address
  parts of the sorted input.
\<close>

theorem loadListeners_hosts:
  assumes "normalizeHosts henv cfg = Inr cfg'"
    and "loadListeners lenv cfg' tlsConfig = (Inr (lss, hosts), log)"
  shows "(\<exists>parsed.
            map (ParseHost henv (case TLS cfg of None \<Rightarrow> DefaultTLSValue henv | Some b \<Rightarrow> b)
                   (honorXDG henv))
                (if Hosts cfg = [] then [[]] else Hosts cfg) = map Inr parsed
            \<and> Hosts cfg' = sort (remdups parsed)
            \<and> hosts = map address_of (sort (remdups parsed)))
         \<and> distinct (Hosts cfg') \<and> sorted (Hosts cfg')
         \<and> (\<forall>h \<in> set (Hosts cfg'). \<exists>proto. h = proto @ ''://'' @ address_of h)
         \<and> (Hosts cfg \<noteq> [] \<and> distinct (Hosts cfg)
              \<and> (\<forall>h \<in> set (Hosts cfg).
                    ParseHost henv (case TLS cfg of None \<Rightarrow> DefaultTLSValue henv | Some b \<Rightarrow> b)
                      (honorXDG henv) h = Inr h)
             \<longrightarrow> hosts = map address_of (sort (Hosts cfg)))"
proof -
  let ?parse = "ParseHost henv (case TLS cfg of None \<Rightarrow> DefaultTLSValue henv | Some b \<Rightarrow> b)
                   (honorXDG henv)"
  from normalizeHosts_Inr [OF assms(1)] obtain parsed where
    p: "map ?parse (if Hosts cfg = [] then [[]] else Hosts cfg) = map Inr parsed"
    and c: "cfg' = cfg\<lparr>Hosts := sort (remdups parsed)\<rparr>"
    by (elim exE conjE)
  from c have h: "Hosts cfg' = sort (remdups parsed)" by simp
  have ne: "Hosts cfg' \<noteq> []"
    using assms(2) by (auto simp add: loadListeners_def split: if_splits)
  with assms(2) have loop:
    "loadListeners_loop lenv cfg' tlsConfig (Hosts cfg') [] [] [] = (Inr (lss, hosts), log)"
    by (simp add: loadListeners_def)
  from loadListeners_loop_hosts [OF loop]
  have hosts: "hosts = map address_of (Hosts cfg')"
    and form: "\<forall>h \<in> set (Hosts cfg'). \<exists>proto. h = proto @ ''://'' @ address_of h"
    by simp_all
  have first: "\<exists>parsed. map ?parse (if Hosts cfg = [] then [[]] else Hosts cfg) = map Inr parsed
            \<and> Hosts cfg' = sort (remdups parsed)
            \<and> hosts = map address_of (sort (remdups parsed))"
    using p h hosts by auto
  have ds: "distinct (Hosts cfg')" "sorted (Hosts cfg')"
    using h by simp_all
  have last: "hosts = map address_of (sort (Hosts cfg))"
    if a: "Hosts cfg \<noteq> [] \<and> distinct (Hosts cfg) \<and> (\<forall>h \<in> set (Hosts cfg). ?parse h = Inr h)"
  proof -
    from a have "map ?parse (Hosts cfg) = map Inr (Hosts cfg)" by simp
    with p a have "map Inr parsed = (map Inr (Hosts cfg) :: (error + string) list)" by simp
    then have e: "parsed = Hosts cfg" by (simp add: inj_map_eq_map)
    from a have d: "remdups (Hosts cfg) = Hosts cfg" by (simp add: distinct_remdups_id)
    have "hosts = map address_of (sort (remdups parsed))" using h hosts by simp
    then show ?thesis by (simp only: e d)
  qed
  from first ds form last show ?thesis by blast
qed
theorem loadListeners_hosts_witness:
  "normalizeHosts example_hosts_env
      (example_config [''unix:///run/d.sock'', ''tcp://127.0.0.1:2375'', ''unix:///run/d.sock''] None None)
     = Inr (example_config [''tcp://127.0.0.1:2375'', ''unix:///run/d.sock''] None None)
   \<and> loadListeners example_listen_env
        (example_config [''tcp://127.0.0.1:2375'', ''unix:///run/d.sock''] None None) None
     = (Inr ([Listener ''tcp'' ''127.0.0.1:2375'' 0, Listener ''unix'' ''/run/d.sock'' 0],
             [''127.0.0.1:2375'', ''/run/d.sock'']),
        [Warn ''tcp://127.0.0.1:2375'' InsecureBinding, Warn ''tcp://127.0.0.1:2375'' BrowserScripts,
         Warn ''tcp://127.0.0.1:2375'' DeprecationNotice, Sleep 1,
         ListenerCreated ''tcp'' ''127.0.0.1:2375'', ListenerCreated ''unix'' ''/run/d.sock''])
   \<and> distinct [''tcp://127.0.0.1:2375'', ''unix:///run/d.sock'']
   \<and> sorted [''tcp://127.0.0.1:2375'', ''unix:///run/d.sock'']"
proof -
  have n: "normalizeHosts example_hosts_env
      (example_config [''unix:///run/d.sock'', ''tcp://127.0.0.1:2375'', ''unix:///run/d.sock''] None None)
     = Inr (example_config [''tcp://127.0.0.1:2375'', ''unix:///run/d.sock''] None None)"
    by (simp add: normalizeHosts_def example_hosts_env_def example_config_def)
  have l: "loadListeners example_listen_env
        (example_config [''tcp://127.0.0.1:2375'', ''unix:///run/d.sock''] None None) None
     = (Inr ([Listener ''tcp'' ''127.0.0.1:2375'' 0, Listener ''unix'' ''/run/d.sock'' 0],
             [''127.0.0.1:2375'', ''/run/d.sock'']),
        [Warn ''tcp://127.0.0.1:2375'' InsecureBinding, Warn ''tcp://127.0.0.1:2375'' BrowserScripts,
         Warn ''tcp://127.0.0.1:2375'' DeprecationNotice, Sleep 1,
         ListenerCreated ''tcp'' ''127.0.0.1:2375'', ListenerCreated ''unix'' ''/run/d.sock''])"
    by (simp add: loadListeners_def example_listen_env_def example_config_def deterrent_def
          authEnabled_def checkTLSAuthOK_def lookup_ip_def)
  from loadListeners_hosts [OF n l]
  have "distinct (Hosts (example_config [''tcp://127.0.0.1:2375'', ''unix:///run/d.sock''] None None))"
    and "sorted (Hosts (example_config [''tcp://127.0.0.1:2375'', ''unix:///run/d.sock''] None None))"
    by blast+
  then have "distinct [''tcp://127.0.0.1:2375'', ''unix:///run/d.sock'']"
    and "sorted [''tcp://127.0.0.1:2375'', ''unix:///run/d.sock'']"
    by (simp_all only: example_config_def config.simps)
  with n l show ?thesis by (intro conjI)
qed

text \<open>
  The claim C3 as it was stated fails: for the two hosts \<open>unix:///var/run/docker.sock\<close>
  and \<open>tcp://127.0.0.1:2375\<close> the returned host list is neither the sorted input
  (the schemes are gone) nor the sorted address parts (the order is that of the full
  specifications).
\<close>

theorem loadListeners_hosts_counterexample:
  "normalizeHosts example_hosts_env
      (example_config [''unix:///var/run/docker.sock'', ''tcp://127.0.0.1:2375''] None None)
     = Inr (example_config [''tcp://127.0.0.1:2375'', ''unix:///var/run/docker.sock''] None None)
   \<and> fst (loadListeners example_listen_env
        (example_config [''tcp://127.0.0.1:2375'', ''unix:///var/run/docker.sock''] None None) None)
     = Inr ([Listener ''tcp'' ''127.0.0.1:2375'' 0, Listener ''unix'' ''/var/run/docker.sock'' 0],
            [''127.0.0.1:2375'', ''/var/run/docker.sock''])
   \<and> [''127.0.0.1:2375'', ''/var/run/docker.sock'']
       \<noteq> sort [''unix:///var/run/docker.sock'', ''tcp://127.0.0.1:2375'']
   \<and> [''127.0.0.1:2375'', ''/var/run/docker.sock'']
       \<noteq> sort [''/var/run/docker.sock'', ''127.0.0.1:2375'']"
proof (intro conjI)
  show "normalizeHosts example_hosts_env
      (example_config [''unix:///var/run/docker.sock'', ''tcp://127.0.0.1:2375''] None None)
     = Inr (example_config [''tcp://127.0.0.1:2375'', ''unix:///var/run/docker.sock''] None None)"
    by (simp add: normalizeHosts_def example_hosts_env_def example_config_def)
  show "fst (loadListeners example_listen_env
        (example_config [''tcp://127.0.0.1:2375'', ''unix:///var/run/docker.sock''] None None) None)
     = Inr ([Listener ''tcp'' ''127.0.0.1:2375'' 0, Listener ''unix'' ''/var/run/docker.sock'' 0],
            [''127.0.0.1:2375'', ''/var/run/docker.sock''])"
    by (simp add: loadListeners_def example_listen_env_def example_config_def deterrent_def
          authEnabled_def checkTLSAuthOK_def lookup_ip_def)
  show "[''127.0.0.1:2375'', ''/var/run/docker.sock'']
       \<noteq> sort [''unix:///var/run/docker.sock'', ''tcp://127.0.0.1:2375'']"
    by simp
  show "[''127.0.0.1:2375'', ''/var/run/docker.sock'']
       \<noteq> sort [''/var/run/docker.sock'', ''127.0.0.1:2375'']"
    by simp
qed
text \<open>
  C5. With client-certificate verification required (\<open>authEnabled\<close>), \<open>loadListeners\<close>
  sleeps for no time and logs no warning, whatever the hosts and the outcome. Without
  it, for a single \<open>tcp\<close> host whose port can be reserved and bound and whose address
  splits into host and port, \<open>loadListeners\<close> succeeds, logs warnings, and sleeps one
  second, or sixteen (one and then fifteen) when \<open>checkTLSAuthOK\<close> is false and the
  address is not a loopback one. In any successful resolution each \<open>tcp\<close> host leaves
  the first warning and the one-second sleep in the log, and the fifteen-second sleep
  under the same condition.
\<close>

theorem loadListeners_deterrent:
  "(authEnabled tlsConfig \<longrightarrow>
      total_delay (snd (loadListeners env cfg tlsConfig)) = 0
      \<and> warnings (snd (loadListeners env cfg tlsConfig)) = [])
   \<and> (\<not> authEnabled tlsConfig \<and> Hosts cfg = [h] \<and> Cut h ''://'' = Some (''tcp'', addr)
        \<and> allocateDaemonPort env addr = None
        \<and> listeners_Init env ''tcp'' addr (SocketGroup cfg) tlsConfig = Inr ls
        \<and> SplitHostPort env addr = Inr (ipAddr, port) \<longrightarrow>
      fst (loadListeners env cfg tlsConfig) = Inr (ls, [addr])
      \<and> total_delay (snd (loadListeners env cfg tlsConfig)) =
          (if \<not> checkTLSAuthOK (tlsDefault env) cfg \<and> not_loopback env ipAddr then 16 else 1)
      \<and> warnings (snd (loadListeners env cfg tlsConfig)) \<noteq> [])
   \<and> (\<not> authEnabled tlsConfig \<and> loadListeners env cfg tlsConfig = (Inr r, log)
        \<and> h \<in> set (Hosts cfg) \<and> Cut h ''://'' = Some (''tcp'', addr) \<longrightarrow>
      Warn h InsecureBinding \<in> set log \<and> Sleep 1 \<in> set log
      \<and> (checkTLSAuthOK (tlsDefault env) cfg
          \<or> (\<exists>ipAddr port. SplitHostPort env addr = Inr (ipAddr, port)
                \<and> (if not_loopback env ipAddr
                    then Warn h SlowedDown \<in> set log \<and> Sleep 15 \<in> set log else True))))"
proof (intro conjI impI)
  assume "authEnabled tlsConfig"
  then show "total_delay (snd (loadListeners env cfg tlsConfig)) = 0"
    and "warnings (snd (loadListeners env cfg tlsConfig)) = []"
    by (simp_all add: loadListeners_auth_no_deterrent)
next
  assume a: "\<not> authEnabled tlsConfig \<and> Hosts cfg = [h] \<and> Cut h ''://'' = Some (''tcp'', addr)
        \<and> allocateDaemonPort env addr = None
        \<and> listeners_Init env ''tcp'' addr (SocketGroup cfg) tlsConfig = Inr ls
        \<and> SplitHostPort env addr = Inr (ipAddr, port)"
  then have s: "fst (loadListeners env cfg tlsConfig) = Inr (ls, [addr])
         \<and> total_delay (snd (loadListeners env cfg tlsConfig)) =
             (if \<not> checkTLSAuthOK (tlsDefault env) cfg \<and> not_loopback env ipAddr then 16 else 1)
         \<and> warnings (snd (loadListeners env cfg tlsConfig)) \<noteq> []"
    by (intro loadListeners_tcp_succeeds) blast+
  from s show "fst (loadListeners env cfg tlsConfig) = Inr (ls, [addr])" by (elim conjE)
  from s show "total_delay (snd (loadListeners env cfg tlsConfig)) =
             (if \<not> checkTLSAuthOK (tlsDefault env) cfg \<and> not_loopback env ipAddr then 16 else 1)"
    by (elim conjE)
  from s show "warnings (snd (loadListeners env cfg tlsConfig)) \<noteq> []" by (elim conjE)
next
  assume a: "\<not> authEnabled tlsConfig \<and> loadListeners env cfg tlsConfig = (Inr r, log)
        \<and> h \<in> set (Hosts cfg) \<and> Cut h ''://'' = Some (''tcp'', addr)"
  then have t: "Warn h InsecureBinding \<in> set log \<and> Sleep 1 \<in> set log
         \<and> (checkTLSAuthOK (tlsDefault env) cfg
             \<or> (\<exists>ipAddr port. SplitHostPort env addr = Inr (ipAddr, port)
                   \<and> (if not_loopback env ipAddr
                       then Warn h SlowedDown \<in> set log \<and> Sleep 15 \<in> set log else True)))"
    by (intro loadListeners_tcp_log) blast+
  from t show "Warn h InsecureBinding \<in> set log" by (elim conjE)
  from t show "Sleep 1 \<in> set log" by (elim conjE)
  from t show "checkTLSAuthOK (tlsDefault env) cfg
             \<or> (\<exists>ipAddr port. SplitHostPort env addr = Inr (ipAddr, port)
                   \<and> (if not_loopback env ipAddr
                       then Warn h SlowedDown \<in> set log \<and> Sleep 15 \<in> set log else True))"
    by (elim conjE)
qed

theorem loadListeners_deterrent_witness:
  "total_delay (snd (loadListeners example_listen_env
       (example_config [''tcp://10.0.0.1:2376''] (Some True) (Some True))
       (Some \<lparr>ClientAuth = RequireAndVerifyClientCert, tlsCAFile = ''ca.pem'',
              tlsCertFile = ''cert.pem'', tlsKeyFile = ''key.pem''\<rparr>))) = 0
   \<and> fst (loadListeners example_listen_env (example_config [''tcp://10.0.0.1:2375''] None None) None)
       = Inr ([Listener ''tcp'' ''10.0.0.1:2375'' 0], [''10.0.0.1:2375''])
   \<and> total_delay (snd (loadListeners example_listen_env
       (example_config [''tcp://10.0.0.1:2375''] None None) None)) = 16
   \<and> total_delay (snd (loadListeners example_listen_env
       (example_config [''tcp://127.0.0.1:2375''] None None) None)) = 1
   \<and> total_delay (snd (loadListeners example_listen_env
       (example_config [''tcp://10.0.0.1:2375''] (Some False) (Some False)) None)) = 1"
proof -
  have auth: "authEnabled (Some \<lparr>ClientAuth = RequireAndVerifyClientCert, tlsCAFile = ''ca.pem'',
              tlsCertFile = ''cert.pem'', tlsKeyFile = ''key.pem''\<rparr>)"
    by (simp add: authEnabled_def)
  have noauth: "\<not> authEnabled None"
    by (simp add: authEnabled_def)
  have cut1: "Cut ''tcp://10.0.0.1:2375'' ''://'' = Some (''tcp'', ''10.0.0.1:2375'')" by simp
  have cut2: "Cut ''tcp://127.0.0.1:2375'' ''://'' = Some (''tcp'', ''127.0.0.1:2375'')" by simp
  have sp1: "SplitHostPort example_listen_env ''10.0.0.1:2375'' = Inr (''10.0.0.1'', ''2375'')"
    by (simp add: example_listen_env_def)
  have sp2: "SplitHostPort example_listen_env ''127.0.0.1:2375'' = Inr (''127.0.0.1'', ''2375'')"
    by (simp add: example_listen_env_def)
  have nl1: "not_loopback example_listen_env ''10.0.0.1''"
    by (simp add: not_loopback_def lookup_ip_def example_listen_env_def)
  have nl2: "\<not> not_loopback example_listen_env ''127.0.0.1''"
    by (simp add: not_loopback_def lookup_ip_def example_listen_env_def)
  have ck1: "\<not> checkTLSAuthOK (tlsDefault example_listen_env) (example_config hs None None)" for hs
    by (simp add: checkTLSAuthOK_def example_listen_env_def example_config_def)
  have ck2: "checkTLSAuthOK (tlsDefault example_listen_env) (example_config hs (Some False) (Some False))" for hs
    by (simp add: checkTLSAuthOK_def example_listen_env_def example_config_def)
  have env: "allocateDaemonPort example_listen_env a = None"
    "listeners_Init example_listen_env p a g t = Inr [Listener p a 0]" for a p g t
    by (simp_all add: example_listen_env_def)
  have hs: "Hosts (example_config hs t v) = hs" for hs t v
    by (simp add: example_config_def)
  note t = loadListeners_deterrent [where env = example_listen_env]
  from t [where tlsConfig = "Some \<lparr>ClientAuth = RequireAndVerifyClientCert, tlsCAFile = ''ca.pem'',
              tlsCertFile = ''cert.pem'', tlsKeyFile = ''key.pem''\<rparr>"
            and cfg = "example_config [''tcp://10.0.0.1:2376''] (Some True) (Some True)"] auth
  have 1: "total_delay (snd (loadListeners example_listen_env
       (example_config [''tcp://10.0.0.1:2376''] (Some True) (Some True))
       (Some \<lparr>ClientAuth = RequireAndVerifyClientCert, tlsCAFile = ''ca.pem'',
              tlsCertFile = ''cert.pem'', tlsKeyFile = ''key.pem''\<rparr>))) = 0"
    by blast
  from t [where tlsConfig = None and cfg = "example_config [''tcp://10.0.0.1:2375''] None None"
            and h = "''tcp://10.0.0.1:2375''" and addr = "''10.0.0.1:2375''"
            and ls = "[Listener ''tcp'' ''10.0.0.1:2375'' 0]"
            and ipAddr = "''10.0.0.1''" and port = "''2375''"]
       noauth cut1 sp1 nl1 ck1 env hs
  have 2: "fst (loadListeners example_listen_env (example_config [''tcp://10.0.0.1:2375''] None None) None)
       = Inr ([Listener ''tcp'' ''10.0.0.1:2375'' 0], [''10.0.0.1:2375''])"
    and 3: "total_delay (snd (loadListeners example_listen_env
       (example_config [''tcp://10.0.0.1:2375''] None None) None)) = 16"
    by simp_all
  from t [where tlsConfig = None and cfg = "example_config [''tcp://127.0.0.1:2375''] None None"
            and h = "''tcp://127.0.0.1:2375''" and addr = "''127.0.0.1:2375''"
            and ls = "[Listener ''tcp'' ''127.0.0.1:2375'' 0]"
            and ipAddr = "''127.0.0.1''" and port = "''2375''"]
       noauth cut2 sp2 nl2 ck1 env hs
  have 4: "total_delay (snd (loadListeners example_listen_env
       (example_config [''tcp://127.0.0.1:2375''] None None) None)) = 1"
    by simp
  from t [where tlsConfig = None
            and cfg = "example_config [''tcp://10.0.0.1:2375''] (Some False) (Some False)"
            and h = "''tcp://10.0.0.1:2375''" and addr = "''10.0.0.1:2375''"
            and ls = "[Listener ''tcp'' ''10.0.0.1:2375'' 0]"
            and ipAddr = "''10.0.0.1''" and port = "''2375''"]
       noauth cut1 sp1 nl1 ck2 env hs
  have 5: "total_delay (snd (loadListeners example_listen_env
       (example_config [''tcp://10.0.0.1:2375''] (Some False) (Some False)) None)) = 1"
    by simp
  from 1 2 3 4 5 show ?thesis by (intro conjI)
qed


end
